theory Spec2Isabelle
  imports Main "HOL-Library.Sublist"
begin

section \<open>The job catalog of \<^verbatim>\<open>ci/generate_azure_pipelines_matrices.py\<close>\<close>

text \<open>
  Python strings are modelled as \<^typ>\<open>string\<close>, one \<^typ>\<open>char\<close> per code point
  below 256. An optional argument whose default is \<^verbatim>\<open>None\<close> is a
  \<^typ>\<open>string option\<close>; the two option dictionaries are maps, since the script only
  ever calls \<^verbatim>\<open>.get\<close> on them. An exception is a value of \<open>error\<close>.
\<close>

datatype error = TypeError | IndexError | KeyError

record BuildJob =
  command :: string
  qt_version :: string
  host :: string
  target :: string
  arch :: string
  archdir :: string
  module :: "string option"
  mirror :: "string option"
  subarchives :: "string option"
  mingw_variant :: string
  is_autodesktop :: bool
  list_options :: "string \<rightharpoonup> string"
  tool_options :: "string \<rightharpoonup> string"
  spec :: "string option"
  output_dir :: "string option"
  check_output_cmd :: "string option"
  emsdk_version :: string
  autodesk_arch_folder :: "string option"

text \<open>
  \<^verbatim>\<open>BuildJob.__init__\<close> with its six positional arguments; every keyword argument
  is at its default and is set with a record update where the catalog passes it.
  \<^verbatim>\<open>list_options if list_options else {}\<close> turns the default \<^verbatim>\<open>None\<close> into the
  empty dictionary.
\<close>

definition BuildJob_init ::
  "string \<Rightarrow> string \<Rightarrow> string \<Rightarrow> string \<Rightarrow> string \<Rightarrow> string \<Rightarrow> BuildJob" where
  "BuildJob_init command' qt_version' host' target' arch' archdir' =
     \<lparr> command = command', qt_version = qt_version', host = host', target = target',
       arch = arch', archdir = archdir', module = None, mirror = None, subarchives = None,
       mingw_variant = [], is_autodesktop = False, list_options = Map.empty,
       tool_options = Map.empty, spec = None, output_dir = None, check_output_cmd = None,
       emsdk_version = ''sdk-fastcomp-1.38.27-64bit@3.1.29'',
       autodesk_arch_folder = None \<rparr>"

text \<open>
  Truthiness of an optional string: \<^verbatim>\<open>None\<close> and \<^verbatim>\<open>""\<close> are false.
  \<open>or_else x d\<close> is \<^verbatim>\<open>x if x else d\<close>, which for these arguments is also
  \<^verbatim>\<open>x or d\<close>.
\<close>

definition truthy :: "string option \<Rightarrow> bool" where
  "truthy x = (case x of None \<Rightarrow> False | Some s \<Rightarrow> s \<noteq> [])"

definition or_else :: "string option \<Rightarrow> string \<Rightarrow> string" where
  "or_else x d = (case x of None \<Rightarrow> d | Some s \<Rightarrow> if s \<noteq> [] then s else d)"

definition backslash :: string where
  "backslash = [CHR 0x5C]"

definition dquote :: string where
  "dquote = [CHR 0x22]"

definition newline :: string where
  "newline = [CHR 0x0A]"

subsection \<open>Derived paths\<close>

definition qt_bindir :: "string \<Rightarrow> BuildJob \<Rightarrow> string" where
  "qt_bindir sep self =
     (let out_dir = or_else (output_dir self) (''$(Build.BinariesDirectory)'' @ sep @ ''Qt'');
          version_dir = (if qt_version self = ''5.9.0'' then ''5.9'' else qt_version self)
      in out_dir @ sep @ version_dir @ sep @ archdir self @ sep @ ''bin'')"

definition win_qt_bindir :: "BuildJob \<Rightarrow> string" where
  "win_qt_bindir self = qt_bindir backslash self"

definition autodesk_qt_bindir :: "string \<Rightarrow> BuildJob \<Rightarrow> string" where
  "autodesk_qt_bindir sep self =
     (let out_dir = or_else (output_dir self) (''$(Build.BinariesDirectory)'' @ sep @ ''Qt'');
          version_dir = (if qt_version self = ''5.9.0'' then ''5.9'' else qt_version self)
      in out_dir @ sep @ version_dir @ sep
           @ or_else (autodesk_arch_folder self) (archdir self) @ sep @ ''bin'')"

definition win_autodesk_qt_bindir :: "BuildJob \<Rightarrow> string" where
  "win_autodesk_qt_bindir self = autodesk_qt_bindir backslash self"

subsection \<open>The MinGW folder\<close>

text \<open>
  \<^verbatim>\<open>re.match(r"^win(\d+)_(mingw\d+)$", s)\<close>. The pattern has no alternative and its
  two greedy digit runs are each followed by something that is not a digit, so a match,
  when there is one, takes the longest digit run at both places: the matcher below reads
  the string once, left to right. \<^verbatim>\<open>\d\<close> is a decimal digit; among the code points
  below 256 these are \<^verbatim>\<open>0\<close> to \<^verbatim>\<open>9\<close>. Without \<^verbatim>\<open>re.MULTILINE\<close>, \<^verbatim>\<open>$\<close> matches
  at the end of the string and also just before a newline that ends the string. The
  result is the pair of groups 1 and 2, or \<open>None\<close>.
\<close>

definition is_digit :: "char \<Rightarrow> bool" where
  "is_digit c = (c \<in> set ''0123456789'')"

fun strip_prefix :: "string \<Rightarrow> string \<Rightarrow> string option" where
  "strip_prefix [] s = Some s"
| "strip_prefix (p # ps) [] = None"
| "strip_prefix (p # ps) (c # cs) = (if p = c then strip_prefix ps cs else None)"

definition re_match_mingw :: "string \<Rightarrow> (string \<times> string) option" where
  "re_match_mingw s =
     (case strip_prefix ''win'' s of
        None \<Rightarrow> None
      | Some r1 \<Rightarrow>
          (let g1 = takeWhile is_digit r1 in
           if g1 = [] then None
           else (case strip_prefix ''_mingw'' (dropWhile is_digit r1) of
                   None \<Rightarrow> None
                 | Some r2 \<Rightarrow>
                     (let d2 = takeWhile is_digit r2; rest = dropWhile is_digit r2 in
                      if d2 = [] then None
                      else if rest = [] \<or> rest = newline then Some (g1, ''mingw'' @ d2)
                      else None))))"

text \<open>
  \<^verbatim>\<open>match[2]\<close> on a failed match subscripts \<^verbatim>\<open>None\<close>, which raises
  \<^verbatim>\<open>TypeError\<close>.
\<close>

definition mingw_folder :: "BuildJob \<Rightarrow> error + string" where
  "mingw_folder self =
     (if mingw_variant self = [] then Inr []
      else (case re_match_mingw (mingw_variant self) of
              None \<Rightarrow> Inl TypeError
            | Some (g1, g2) \<Rightarrow> Inr (g2 @ ''_'' @ g1)))"

subsection \<open>Strings, lists and dictionaries of Python\<close>

text \<open>\<^verbatim>\<open>s.split(c)\<close> for a separator of one character.\<close>

fun split_chr :: "char \<Rightarrow> string \<Rightarrow> string list" where
  "split_chr c [] = [[]]"
| "split_chr c (x # xs) =
     (if x = c then [] # split_chr c xs
      else (case split_chr c xs of [] \<Rightarrow> [[x]] | p # ps \<Rightarrow> (x # p) # ps))"

definition py_index :: "'a list \<Rightarrow> nat \<Rightarrow> error + 'a" where
  "py_index xs i = (if i < length xs then Inr (xs ! i) else Inl IndexError)"

definition dict_get :: "(string \<rightharpoonup> string) \<Rightarrow> string \<Rightarrow> string \<Rightarrow> string" where
  "dict_get d k dflt = (case d k of None \<Rightarrow> dflt | Some v \<Rightarrow> v)"

definition str_bool :: "bool \<Rightarrow> string" where
  "str_bool b = (if b then ''True'' else ''False'')"

text \<open>
  An ordered dictionary is the list of its items in insertion order. Assigning to a key
  it has keeps the key's place and replaces the value; a new key goes to the end.
\<close>

fun od_set :: "('k \<times> 'v) list \<Rightarrow> 'k \<Rightarrow> 'v \<Rightarrow> ('k \<times> 'v) list" where
  "od_set [] k v = [(k, v)]"
| "od_set ((k', v') # d) k v =
     (if k' = k then (k, v) # d else (k', v') # od_set d k v)"

definition OrderedDict :: "('k \<times> 'v) list \<Rightarrow> ('k \<times> 'v) list" where
  "OrderedDict items = foldl (\<lambda>d (k, v). od_set d k v) [] items"

subsection \<open>The matrix\<close>

type_synonym variables = "(string \<times> string) list"
type_synonym matrix = "(string \<times> variables) list"

definition job_key :: "BuildJob \<Rightarrow> string" where
  "job_key build_job =
     (let key = command build_job @ '' '' @ qt_version build_job @ '' '' @ arch build_job
                  @ '' for '' @ target build_job;
          key = (if truthy (spec build_job)
                 then key @ '' (spec='' @ dquote @ the (spec build_job) @ dquote @ '')''
                 else key);
          key = (if truthy (module build_job)
                 then key @ '' ('' @ the (module build_job) @ '')'' else key);
          key = (if truthy (subarchives build_job)
                 then key @ '' ('' @ the (subarchives build_job) @ '')'' else key);
          key = (if truthy (output_dir build_job)
                 then key @ '' ('' @ the (output_dir build_job) @ '')'' else key)
      in key)"

text \<open>
  The items of the inner dictionary are evaluated in the order they are written, so the
  first call that raises decides the exception: \<^verbatim>\<open>mingw_folder()\<close>, then the two
  subscripts of the split toolchain field.
\<close>

definition job_variables :: "string \<Rightarrow> BuildJob \<Rightarrow> error + variables" where
  "job_variables python_version build_job =
     (case mingw_folder build_job of
        Inl e \<Rightarrow> Inl e
      | Inr folder \<Rightarrow>
     (case py_index (split_chr CHR ''@'' (emsdk_version build_job @ ''@main'')) 0 of
        Inl e \<Rightarrow> Inl e
      | Inr emsdk \<Rightarrow>
     (case py_index (split_chr CHR ''@'' (emsdk_version build_job @ ''@main'')) 1 of
        Inl e \<Rightarrow> Inl e
      | Inr tag \<Rightarrow>
        Inr (OrderedDict
          [(''PYTHON_VERSION'', python_version),
           (''SUBCOMMAND'', command build_job),
           (''QT_VERSION'', qt_version build_job),
           (''HOST'', host build_job),
           (''TARGET'', target build_job),
           (''ARCH'', arch build_job),
           (''ARCHDIR'', archdir build_job),
           (''MODULE'', or_else (module build_job) []),
           (''QT_BASE_MIRROR'', or_else (mirror build_job) []),
           (''SUBARCHIVES'', or_else (subarchives build_job) []),
           (''SPEC'', or_else (spec build_job) []),
           (''MINGW_VARIANT'', mingw_variant build_job),
           (''MINGW_FOLDER'', folder),
           (''IS_AUTODESKTOP'', str_bool (is_autodesktop build_job)),
           (''HAS_WASM'', dict_get (list_options build_job) ''HAS_WASM'' ''True''),
           (''OUTPUT_DIR'', or_else (output_dir build_job) []),
           (''QT_BINDIR'', qt_bindir ''/'' build_job),
           (''WIN_QT_BINDIR'', win_qt_bindir build_job),
           (''EMSDK_VERSION'', emsdk),
           (''EMSDK_TAG'', tag),
           (''WIN_AUTODESK_QT_BINDIR'', win_autodesk_qt_bindir build_job),
           (''TOOL1_ARGS'', dict_get (tool_options build_job) ''TOOL1_ARGS'' []),
           (''LIST_TOOL1_CMD'', dict_get (tool_options build_job) ''LIST_TOOL1_CMD'' []),
           (''TEST_TOOL1_CMD'', dict_get (tool_options build_job) ''TEST_TOOL1_CMD'' []),
           (''TOOL2_ARGS'', dict_get (tool_options build_job) ''TOOL2_ARGS'' []),
           (''LIST_TOOL2_CMD'', dict_get (tool_options build_job) ''LIST_TOOL2_CMD'' []),
           (''TEST_TOOL2_CMD'', dict_get (tool_options build_job) ''TEST_TOOL2_CMD'' []),
           (''CHECK_OUTPUT_CMD'', or_else (check_output_cmd build_job) [])]))))"

text \<open>
  The inner loop, over \<^verbatim>\<open>product(build_jobs, python_versions)\<close>: the jobs in order,
  and for each job the interpreter versions in order.
\<close>

fun matrix_loop :: "matrix \<Rightarrow> (BuildJob \<times> string) list \<Rightarrow> error + matrix" where
  "matrix_loop matrix_dictionary [] = Inr matrix_dictionary"
| "matrix_loop matrix_dictionary ((build_job, python_version) # rest) =
     (case job_variables python_version build_job of
        Inl e \<Rightarrow> Inl e
      | Inr vars \<Rightarrow> matrix_loop (od_set matrix_dictionary (job_key build_job) vars) rest)"

definition matrix_dictionary :: "string list \<Rightarrow> BuildJob list \<Rightarrow> error + matrix" where
  "matrix_dictionary versions jobs = matrix_loop [] (List.product jobs versions)"

record PlatformBuildJobs =
  platform :: string
  build_jobs :: "BuildJob list"

fun matrices_loop ::
  "(string \<times> matrix) list \<Rightarrow> string list \<Rightarrow> PlatformBuildJobs list
     \<Rightarrow> error + (string \<times> matrix) list" where
  "matrices_loop matrices versions [] = Inr matrices"
| "matrices_loop matrices versions (platform_build_job # rest) =
     (case matrix_dictionary versions (build_jobs platform_build_job) of
        Inl e \<Rightarrow> Inl e
      | Inr m \<Rightarrow> matrices_loop (od_set matrices (platform platform_build_job) m) versions rest)"

subsection \<open>Serialisation\<close>

text \<open>
  \<^verbatim>\<open>json.dumps\<close> with its defaults (\<^verbatim>\<open>ensure_ascii=True\<close>, separators
  \<^verbatim>\<open>", "\<close> and \<^verbatim>\<open>": "\<close>) on a dictionary of dictionaries of strings. A character
  outside the range from the space to the tilde, a double quote and a backslash are
  escaped; every other character stands for itself.
\<close>

definition hex_digit :: "nat \<Rightarrow> char" where
  "hex_digit n = ''0123456789abcdef'' ! (n mod 16)"

definition json_escape :: "char \<Rightarrow> string" where
  "json_escape c =
     (if c = CHR 0x22 then backslash @ dquote
      else if c = CHR 0x5C then backslash @ backslash
      else if c = CHR 0x0A then backslash @ ''n''
      else if c = CHR 0x0D then backslash @ ''r''
      else if c = CHR 0x09 then backslash @ ''t''
      else if c = CHR 0x08 then backslash @ ''b''
      else if c = CHR 0x0C then backslash @ ''f''
      else if (of_char c :: nat) < 0x20 \<or> 0x7E < (of_char c :: nat)
      then backslash @ ''u00'' @ [hex_digit (of_char c div 16), hex_digit (of_char c)]
      else [c])"

definition json_string :: "string \<Rightarrow> string" where
  "json_string s = dquote @ concat (map json_escape s) @ dquote"

fun join :: "string \<Rightarrow> string list \<Rightarrow> string" where
  "join sep [] = []"
| "join sep [x] = x"
| "join sep (x # y # ys) = x @ sep @ join sep (y # ys)"

definition json_object :: "(string \<times> string) list \<Rightarrow> string" where
  "json_object items =
     ''{'' @ join '', '' (map (\<lambda>(k, v). json_string k @ '': '' @ v) items) @ ''}''"

definition json_dumps :: "matrix \<Rightarrow> string" where
  "json_dumps m =
     json_object
       (map (\<lambda>(key, vars). (key, json_object (map (\<lambda>(name, v). (name, json_string v)) vars)))
          m)"

subsection \<open>The catalog and the script\<close>

definition MIRRORS :: "string list" where
  "MIRRORS =
     [''https://ftp.jaist.ac.jp/pub/qtproject'',
      ''https://ftp1.nluug.nl/languages/qt'',
      ''https://mirrors.dotsrc.org/qtproject'']"

text \<open>
  \<^verbatim>\<open>random.choice(seq)\<close> of the \<^verbatim>\<open>secrets\<close> module: the element at a random index
  below the length. The randomness is the argument \<open>r\<close>, a number of which the index is
  the remainder.
\<close>

definition choice :: "'a list \<Rightarrow> nat \<Rightarrow> error + 'a" where
  "choice seq r = (if seq = [] then Inl IndexError else Inr (seq ! (r mod length seq)))"

definition python_versions :: "string list" where
  "python_versions = [''3.9'']"

text \<open>
  The two Windows jobs; the arguments are the mirrors chosen for them. The module also
  binds \<^verbatim>\<open>qt_versions\<close>, \<^verbatim>\<open>tool_options\<close>, \<^verbatim>\<open>tool_options_mac\<close> and three tool
  paths, which no job and no statement after them reads.
\<close>

definition windows_build_jobs :: "string \<Rightarrow> string \<Rightarrow> BuildJob list" where
  "windows_build_jobs mirror1 mirror2 =
     [(BuildJob_init ''install-qt'' ''5.11.3'' ''windows'' ''desktop'' ''win64_msvc2015_64''
         ''msvc2015_64'')
        \<lparr> mirror := Some mirror1,
          subarchives := Some ''qttools qtbase qtwinextras qtmultimedia'' \<rparr>,
      (BuildJob_init ''install-qt'' ''5.11.3'' ''windows'' ''desktop'' ''win32_mingw53''
         ''mingw53_32'')
        \<lparr> mirror := Some mirror2,
          subarchives := Some ''qttools qtbase qtwinextras qtmultimedia'',
          mingw_variant := ''win32_mingw530'' \<rparr>]"

text \<open>
  \<^verbatim>\<open>all_platform_build_jobs\<close> registers the Windows list alone; the Linux and the
  macOS lists of the module are arguments here, to state what the script does with them.
\<close>

definition all_platform_build_jobs ::
  "BuildJob list \<Rightarrow> BuildJob list \<Rightarrow> BuildJob list \<Rightarrow> PlatformBuildJobs list" where
  "all_platform_build_jobs linux_build_jobs mac_build_jobs windows_build_jobs' =
     [\<lparr> platform = ''windows'', build_jobs = windows_build_jobs' \<rparr>]"

definition set_variable :: "string \<Rightarrow> string \<Rightarrow> string" where
  "set_variable name payload =
     ''##vso[task.setVariable variable='' @ name @ '';isOutput=true]'' @ payload"

text \<open>
  A run ends with the lines it has printed and the exception that stopped it, if any.
  The loop runs before the first \<^verbatim>\<open>print\<close>; \<^verbatim>\<open>matrices['windows']\<close> is evaluated
  after it.
\<close>

definition script ::
  "BuildJob list \<Rightarrow> BuildJob list \<Rightarrow> BuildJob list \<Rightarrow> string list \<times> error option" where
  "script linux_build_jobs mac_build_jobs windows_build_jobs' =
     (case matrices_loop [] python_versions
             (all_platform_build_jobs linux_build_jobs mac_build_jobs windows_build_jobs') of
        Inl e \<Rightarrow> ([], Some e)
      | Inr matrices \<Rightarrow>
          (case map_of matrices ''windows'' of
             None \<Rightarrow> ([''Setting Variables below''], Some KeyError)
           | Some m \<Rightarrow>
               ([''Setting Variables below'',
                 set_variable ''windows'' (json_dumps m),
                 set_variable ''linux'' [],
                 set_variable ''mac'' []], None)))"

definition program :: "nat \<Rightarrow> nat \<Rightarrow> string list \<times> error option" where
  "program r1 r2 =
     (case choice MIRRORS r1 of
        Inl e \<Rightarrow> ([], Some e)
      | Inr mirror1 \<Rightarrow>
          (case choice MIRRORS r2 of
             Inl e \<Rightarrow> ([], Some e)
           | Inr mirror2 \<Rightarrow> script [] [] (windows_build_jobs mirror1 mirror2)))"

section \<open>Properties\<close>

subsection \<open>The path of the binaries\<close>

text \<open>
  C6: the version segment of \<open>qt_bindir\<close> is \<^verbatim>\<open>5.9\<close> for the version \<^verbatim>\<open>5.9.0\<close> and the
  version string itself for every other version (so the segment differs from the version
  string exactly for \<^verbatim>\<open>5.9.0\<close>), and the result is the base directory, the segment, the
  architecture directory and \<^verbatim>\<open>bin\<close> joined by the separator. The base directory is
  the override when one is set and \<^verbatim>\<open>$(Build.BinariesDirectory)<sep>Qt\<close> otherwise.
\<close>

theorem qt_bindir_version_segment:
  "(qt_version self = ''5.9.0'' \<longrightarrow>
      qt_bindir sep self =
        or_else (output_dir self) (''$(Build.BinariesDirectory)'' @ sep @ ''Qt'')
          @ sep @ ''5.9'' @ sep @ archdir self @ sep @ ''bin'')
   \<and> (qt_version self \<noteq> ''5.9.0'' \<longrightarrow>
      qt_bindir sep self =
        or_else (output_dir self) (''$(Build.BinariesDirectory)'' @ sep @ ''Qt'')
          @ sep @ qt_version self @ sep @ archdir self @ sep @ ''bin'')"
  by (simp add: qt_bindir_def Let_def)

theorem qt_bindir_version_segment_witness:
  "qt_bindir ''/''
     (BuildJob_init ''install-qt'' ''5.9.0'' ''windows'' ''desktop'' ''win64_msvc2015_64''
        ''msvc2015_64'')
     = ''$(Build.BinariesDirectory)/Qt/5.9/msvc2015_64/bin''
   \<and> qt_bindir backslash
     ((BuildJob_init ''install-qt'' ''5.11.3'' ''windows'' ''desktop'' ''win32_mingw53''
        ''mingw53_32'') \<lparr> output_dir := Some ''out'' \<rparr>)
     = ''out'' @ backslash @ ''5.11.3'' @ backslash @ ''mingw53_32'' @ backslash @ ''bin''"
  using
    qt_bindir_version_segment [of
      "BuildJob_init ''install-qt'' ''5.9.0'' ''windows'' ''desktop'' ''win64_msvc2015_64''
         ''msvc2015_64''" "''/''"]
    qt_bindir_version_segment [of
      "(BuildJob_init ''install-qt'' ''5.11.3'' ''windows'' ''desktop'' ''win32_mingw53''
         ''mingw53_32'') \<lparr> output_dir := Some ''out'' \<rparr>" backslash]
  by (simp add: BuildJob_init_def or_else_def)

subsection \<open>The MinGW folder\<close>

lemma strip_prefix_append: "strip_prefix p (p @ r) = Some r"
  by (induction p) auto

lemma strip_prefix_Some: "strip_prefix p s = Some r \<Longrightarrow> s = p @ r"
  by (induction p s rule: strip_prefix.induct) (auto split: if_splits)

lemma takeWhile_digits:
  assumes "list_all is_digit d" and "t = [] \<or> \<not> is_digit (hd t)"
  shows "takeWhile is_digit (d @ t) = d" and "dropWhile is_digit (d @ t) = t"
proof -
  have d: "\<And>x. x \<in> set d \<Longrightarrow> is_digit x"
    using assms(1) by (simp add: list_all_iff)
  have t: "takeWhile is_digit t = []" "dropWhile is_digit t = t"
    using assms(2) by (cases t; auto)+
  show "takeWhile is_digit (d @ t) = d"
    using d t by simp
  show "dropWhile is_digit (d @ t) = t"
    using d t by simp
qed

text \<open>
  The matcher against the pattern read as a set of strings: it succeeds on
  \<^verbatim>\<open>win<d1>_mingw<d2>\<close>, with or without one newline after it, and on nothing else.
\<close>

lemma re_match_mingw_shape:
  assumes "d1 \<noteq> []" "d2 \<noteq> []" "list_all is_digit d1" "list_all is_digit d2"
    and "t = [] \<or> t = newline"
  shows "re_match_mingw (''win'' @ d1 @ ''_mingw'' @ d2 @ t) = Some (d1, ''mingw'' @ d2)"
proof -
  have s1: "strip_prefix ''win'' (''win'' @ d1 @ ''_mingw'' @ d2 @ t)
              = Some (d1 @ ''_mingw'' @ d2 @ t)"
    by (rule strip_prefix_append)
  have nd: "\<not> is_digit (hd (''_mingw'' @ d2 @ t))"
    by (simp add: is_digit_def)
  have t1: "takeWhile is_digit (d1 @ ''_mingw'' @ d2 @ t) = d1"
    and r1: "dropWhile is_digit (d1 @ ''_mingw'' @ d2 @ t) = ''_mingw'' @ d2 @ t"
    using takeWhile_digits [OF assms(3), of "''_mingw'' @ d2 @ t"] nd by blast+
  have s2: "strip_prefix ''_mingw'' (''_mingw'' @ d2 @ t) = Some (d2 @ t)"
    by (rule strip_prefix_append)
  have nt: "t = [] \<or> \<not> is_digit (hd t)"
    using assms(5) by (auto simp: newline_def is_digit_def)
  have t2: "takeWhile is_digit (d2 @ t) = d2" and r2: "dropWhile is_digit (d2 @ t) = t"
    using takeWhile_digits [OF assms(4) nt] by blast+
  show ?thesis
    unfolding re_match_mingw_def s1 option.case Let_def t1 r1 s2 t2 r2
    using assms(1,2,5) by simp
qed

lemma re_match_mingw_Some:
  assumes "re_match_mingw s = Some (g1, g2)"
  shows "\<exists>d2 t. s = ''win'' @ g1 @ ''_mingw'' @ d2 @ t \<and> g2 = ''mingw'' @ d2
           \<and> g1 \<noteq> [] \<and> d2 \<noteq> [] \<and> list_all is_digit g1 \<and> list_all is_digit d2
           \<and> (t = [] \<or> t = newline)"
proof -
  from assms obtain r1 where r1: "strip_prefix ''win'' s = Some r1"
    by (auto simp: re_match_mingw_def split: option.splits)
  from assms r1 have g1: "g1 = takeWhile is_digit r1" "g1 \<noteq> []"
    by (auto simp: re_match_mingw_def Let_def split: option.splits if_splits)
  from assms r1 obtain r2
    where r2: "strip_prefix ''_mingw'' (dropWhile is_digit r1) = Some r2"
    by (auto simp: re_match_mingw_def Let_def split: option.splits if_splits)
  from assms r1 r2
  have g2: "g2 = ''mingw'' @ takeWhile is_digit r2" "takeWhile is_digit r2 \<noteq> []"
    and t: "dropWhile is_digit r2 = [] \<or> dropWhile is_digit r2 = newline"
    by (auto simp: re_match_mingw_def Let_def split: option.splits if_splits)
  have "s = ''win'' @ r1"
    using strip_prefix_Some [OF r1] .
  moreover have "r1 = g1 @ dropWhile is_digit r1"
    using g1 by simp
  moreover have "dropWhile is_digit r1 = ''_mingw'' @ r2"
    using strip_prefix_Some [OF r2] .
  moreover have "r2 = takeWhile is_digit r2 @ dropWhile is_digit r2"
    by simp
  ultimately
  have "s = ''win'' @ g1 @ ''_mingw'' @ takeWhile is_digit r2 @ dropWhile is_digit r2"
    by metis
  moreover have "list_all is_digit g1" "list_all is_digit (takeWhile is_digit r2)"
    using g1 by (auto simp: list_all_iff dest: set_takeWhileD)
  ultimately show ?thesis
    using g1 g2 t by blast
qed

text \<open>
  When \<open>mingw_folder\<close> raises: on a variant that is not empty and is not
  \<^verbatim>\<open>win<digits>_mingw<digits>\<close>, where a variant that has one newline after that shape
  counts as having it.
\<close>

lemma mingw_folder_raises_iff:
  "mingw_folder self = Inl e \<longleftrightarrow>
     e = TypeError \<and> mingw_variant self \<noteq> []
     \<and> \<not> (\<exists>d1 d2 t. mingw_variant self = ''win'' @ d1 @ ''_mingw'' @ d2 @ t
             \<and> d1 \<noteq> [] \<and> d2 \<noteq> [] \<and> list_all is_digit d1 \<and> list_all is_digit d2
             \<and> (t = [] \<or> t = newline))"
proof (cases "mingw_variant self = []")
  case True
  then show ?thesis by (simp add: mingw_folder_def)
next
  case False
  show ?thesis
  proof (cases "re_match_mingw (mingw_variant self)")
    case None
    have "\<not> (\<exists>d1 d2 t. mingw_variant self = ''win'' @ d1 @ ''_mingw'' @ d2 @ t
             \<and> d1 \<noteq> [] \<and> d2 \<noteq> [] \<and> list_all is_digit d1 \<and> list_all is_digit d2
             \<and> (t = [] \<or> t = newline))"
    proof
      assume "\<exists>d1 d2 t. mingw_variant self = ''win'' @ d1 @ ''_mingw'' @ d2 @ t
             \<and> d1 \<noteq> [] \<and> d2 \<noteq> [] \<and> list_all is_digit d1 \<and> list_all is_digit d2
             \<and> (t = [] \<or> t = newline)"
      then obtain d1 d2 t where "mingw_variant self = ''win'' @ d1 @ ''_mingw'' @ d2 @ t"
        "d1 \<noteq> []" "d2 \<noteq> []" "list_all is_digit d1" "list_all is_digit d2"
        "t = [] \<or> t = newline"
        by blast
      then have "re_match_mingw (mingw_variant self) = Some (d1, ''mingw'' @ d2)"
        using re_match_mingw_shape by metis
      with None show False by simp
    qed
    with None False show ?thesis
      by (auto simp: mingw_folder_def)
  next
    case (Some g)
    obtain g1 g2 where g: "g = (g1, g2)" by (cases g)
    from re_match_mingw_Some [OF Some [unfolded g]]
    have "\<exists>d1 d2 t. mingw_variant self = ''win'' @ d1 @ ''_mingw'' @ d2 @ t
             \<and> d1 \<noteq> [] \<and> d2 \<noteq> [] \<and> list_all is_digit d1 \<and> list_all is_digit d2
             \<and> (t = [] \<or> t = newline)"
      by blast
    with Some g False show ?thesis
      by (auto simp: mingw_folder_def)
  qed
qed

text \<open>
  C4: for the variant \<^verbatim>\<open>win32_mingw530\<close> the folder is \<^verbatim>\<open>mingw530_32\<close>; in general a
  variant \<^verbatim>\<open>win<d1>_mingw<d2>\<close>, with \<open>d1\<close> and \<open>d2\<close> runs of one or more digits, gives
  \<^verbatim>\<open>mingw<d2>_<d1>\<close>; the empty variant gives the empty string.
\<close>

theorem mingw_folder_reorders:
  "(mingw_variant self = ''win32_mingw530'' \<longrightarrow> mingw_folder self = Inr ''mingw530_32'')
   \<and> (mingw_variant self = [] \<longrightarrow> mingw_folder self = Inr [])
   \<and> (d1 \<noteq> [] \<and> d2 \<noteq> [] \<and> list_all is_digit d1 \<and> list_all is_digit d2
        \<and> mingw_variant self = ''win'' @ d1 @ ''_mingw'' @ d2
      \<longrightarrow> mingw_folder self = Inr (''mingw'' @ d2 @ ''_'' @ d1))"
proof -
  have general: "mingw_folder self = Inr (''mingw'' @ d2 @ ''_'' @ d1)"
    if "d1 \<noteq> []" "d2 \<noteq> []" "list_all is_digit d1" "list_all is_digit d2"
      "mingw_variant self = ''win'' @ d1 @ ''_mingw'' @ d2" for d1 d2
  proof -
    have "re_match_mingw (''win'' @ d1 @ ''_mingw'' @ d2 @ []) = Some (d1, ''mingw'' @ d2)"
      using that(1-4) by (intro re_match_mingw_shape) simp_all
    then show ?thesis
      using that(1,5) by (simp add: mingw_folder_def)
  qed
  have "mingw_folder self = Inr ''mingw530_32''" if "mingw_variant self = ''win32_mingw530''"
    using general [of "''32''" "''530''"] that by (simp add: is_digit_def)
  moreover have "mingw_folder self = Inr []" if "mingw_variant self = []"
    using that by (simp add: mingw_folder_def)
  ultimately show ?thesis
    using general by blast
qed

theorem mingw_folder_reorders_witness:
  "mingw_folder
     ((BuildJob_init ''install-qt'' ''5.11.3'' ''windows'' ''desktop'' ''win32_mingw53''
         ''mingw53_32'') \<lparr> mingw_variant := ''win32_mingw530'' \<rparr>) = Inr ''mingw530_32''
   \<and> mingw_folder
     (BuildJob_init ''install-qt'' ''5.11.3'' ''windows'' ''desktop'' ''win64_msvc2015_64''
         ''msvc2015_64'') = Inr []
   \<and> list_all is_digit ''64'' \<and> list_all is_digit ''810''
   \<and> mingw_folder
     ((BuildJob_init ''install-qt'' ''5.15.2'' ''windows'' ''desktop'' ''win64_mingw81''
         ''mingw81_64'') \<lparr> mingw_variant := ''win64_mingw810'' \<rparr>) = Inr ''mingw810_64''"
  using
    mingw_folder_reorders [of
      "(BuildJob_init ''install-qt'' ''5.11.3'' ''windows'' ''desktop'' ''win32_mingw53''
         ''mingw53_32'') \<lparr> mingw_variant := ''win32_mingw530'' \<rparr>" "''32''" "''530''"]
    mingw_folder_reorders [of
      "BuildJob_init ''install-qt'' ''5.11.3'' ''windows'' ''desktop'' ''win64_msvc2015_64''
         ''msvc2015_64''" "''32''" "''530''"]
    mingw_folder_reorders [of
      "(BuildJob_init ''install-qt'' ''5.15.2'' ''windows'' ''desktop'' ''win64_mingw81''
         ''mingw81_64'') \<lparr> mingw_variant := ''win64_mingw810'' \<rparr>" "''64''" "''810''"]
  by (simp add: BuildJob_init_def is_digit_def)

text \<open>
  C5: the variant \<^verbatim>\<open>win32_mingw530\<close> followed by a newline is not empty and is not of
  the shape \<^verbatim>\<open>win<digits>_mingw<digits>\<close>, and \<open>mingw_folder\<close> returns a folder for it
  where the claim has it raise: \<^verbatim>\<open>$\<close> also matches before a newline that ends the
  string.
\<close>

theorem mingw_folder_trailing_newline:
  "mingw_folder
     ((BuildJob_init ''install-qt'' ''5.11.3'' ''windows'' ''desktop'' ''win32_mingw53''
         ''mingw53_32'') \<lparr> mingw_variant := ''win32_mingw530'' @ newline \<rparr>)
     = Inr ''mingw530_32''
   \<and> ''win32_mingw530'' @ newline \<noteq> []
   \<and> \<not> (\<exists>d1 d2. ''win32_mingw530'' @ newline = ''win'' @ d1 @ ''_mingw'' @ d2
            \<and> d1 \<noteq> [] \<and> d2 \<noteq> [] \<and> list_all is_digit d1 \<and> list_all is_digit d2)"
proof -
  have "\<not> (\<exists>d1 d2. ''win32_mingw530'' @ newline = ''win'' @ d1 @ ''_mingw'' @ d2
            \<and> d1 \<noteq> [] \<and> d2 \<noteq> [] \<and> list_all is_digit d1 \<and> list_all is_digit d2)"
  proof
    assume "\<exists>d1 d2. ''win32_mingw530'' @ newline = ''win'' @ d1 @ ''_mingw'' @ d2
            \<and> d1 \<noteq> [] \<and> d2 \<noteq> [] \<and> list_all is_digit d1 \<and> list_all is_digit d2"
    then obtain d1 d2
      where eq: "''win32_mingw530'' @ newline = ''win'' @ d1 @ ''_mingw'' @ d2"
        and d2: "d2 \<noteq> []" "list_all is_digit d2"
      by blast
    have "last (''win'' @ d1 @ ''_mingw'' @ d2) = last d2"
      using d2(1) by simp
    moreover have "last (''win32_mingw530'' @ newline) = CHR 0x0A"
      by (simp add: newline_def)
    moreover have "last (''win32_mingw530'' @ newline) = last (''win'' @ d1 @ ''_mingw'' @ d2)"
      by (rule arg_cong [OF eq])
    ultimately have "last d2 = CHR 0x0A"
      by (simp only:)
    moreover have "is_digit (last d2)"
      using d2 by (simp add: list_all_iff)
    ultimately show False
      by (simp add: is_digit_def)
  qed
  moreover have "mingw_folder
     ((BuildJob_init ''install-qt'' ''5.11.3'' ''windows'' ''desktop'' ''win32_mingw53''
         ''mingw53_32'') \<lparr> mingw_variant := ''win32_mingw530'' @ newline \<rparr>)
     = Inr ''mingw530_32''"
    by (simp add: mingw_folder_def re_match_mingw_def BuildJob_init_def is_digit_def
        newline_def)
  ultimately show ?thesis
    by simp
qed

subsection \<open>The variables of a job\<close>

lemma split_chr_nonempty: "split_chr c s \<noteq> []"
  by (induction s) (auto split: list.splits)

lemma split_chr_no_sep: "c \<notin> set xs \<Longrightarrow> split_chr c (xs @ c # ys) = xs # split_chr c ys"
  by (induction xs) auto

lemma length_split_chr_sep:
  "length (split_chr c (xs @ c # ys)) = length (split_chr c xs) + length (split_chr c ys)"
  by (induction xs) (auto split: list.splits simp: split_chr_nonempty)

lemma length_split_chr_ge2: "1 < length (split_chr c (xs @ c # ys))"
proof -
  have "0 < length (split_chr c xs)" "0 < length (split_chr c ys)"
    by (simp_all add: split_chr_nonempty)
  then show ?thesis
    unfolding length_split_chr_sep by linarith
qed

lemma od_set_fresh: "k \<notin> fst ` set d \<Longrightarrow> od_set d k v = d @ [(k, v)]"
  by (induction d) auto

lemma foldl_od_set_distinct:
  "distinct (map fst d @ map fst items) \<Longrightarrow>
     foldl (\<lambda>d (k, v). od_set d k v) d items = d @ items"
proof (induction items arbitrary: d)
  case Nil
  then show ?case by simp
next
  case (Cons a items)
  obtain k v where a: "a = (k, v)" by (cases a)
  have fresh: "k \<notin> fst ` set d"
    using Cons.prems a by auto
  have "distinct (map fst (d @ [(k, v)]) @ map fst items)"
    using Cons.prems a by auto
  then have "foldl (\<lambda>d (k, v). od_set d k v) (d @ [(k, v)]) items = (d @ [(k, v)]) @ items"
    by (rule Cons.IH)
  then show ?case
    using fresh a by (simp add: od_set_fresh)
qed

lemma OrderedDict_distinct: "distinct (map fst items) \<Longrightarrow> OrderedDict items = items"
  using foldl_od_set_distinct [of "[]" items] by (simp add: OrderedDict_def)

lemma job_variables_cases:
  "job_variables python_version build_job =
     (case mingw_folder build_job of
        Inl e \<Rightarrow> Inl e
      | Inr folder \<Rightarrow>
          Inr [(''PYTHON_VERSION'', python_version),
           (''SUBCOMMAND'', command build_job),
           (''QT_VERSION'', qt_version build_job),
           (''HOST'', host build_job),
           (''TARGET'', target build_job),
           (''ARCH'', arch build_job),
           (''ARCHDIR'', archdir build_job),
           (''MODULE'', or_else (module build_job) []),
           (''QT_BASE_MIRROR'', or_else (mirror build_job) []),
           (''SUBARCHIVES'', or_else (subarchives build_job) []),
           (''SPEC'', or_else (spec build_job) []),
           (''MINGW_VARIANT'', mingw_variant build_job),
           (''MINGW_FOLDER'', folder),
           (''IS_AUTODESKTOP'', str_bool (is_autodesktop build_job)),
           (''HAS_WASM'', dict_get (list_options build_job) ''HAS_WASM'' ''True''),
           (''OUTPUT_DIR'', or_else (output_dir build_job) []),
           (''QT_BINDIR'', qt_bindir ''/'' build_job),
           (''WIN_QT_BINDIR'', win_qt_bindir build_job),
           (''EMSDK_VERSION'', split_chr CHR ''@'' (emsdk_version build_job @ ''@main'') ! 0),
           (''EMSDK_TAG'', split_chr CHR ''@'' (emsdk_version build_job @ ''@main'') ! 1),
           (''WIN_AUTODESK_QT_BINDIR'', win_autodesk_qt_bindir build_job),
           (''TOOL1_ARGS'', dict_get (tool_options build_job) ''TOOL1_ARGS'' []),
           (''LIST_TOOL1_CMD'', dict_get (tool_options build_job) ''LIST_TOOL1_CMD'' []),
           (''TEST_TOOL1_CMD'', dict_get (tool_options build_job) ''TEST_TOOL1_CMD'' []),
           (''TOOL2_ARGS'', dict_get (tool_options build_job) ''TOOL2_ARGS'' []),
           (''LIST_TOOL2_CMD'', dict_get (tool_options build_job) ''LIST_TOOL2_CMD'' []),
           (''TEST_TOOL2_CMD'', dict_get (tool_options build_job) ''TEST_TOOL2_CMD'' []),
           (''CHECK_OUTPUT_CMD'', or_else (check_output_cmd build_job) [])])"
proof -
  have len: "1 < length (split_chr CHR ''@'' (emsdk_version build_job @ ''@main''))"
    using length_split_chr_ge2 [of "CHR ''@''" "emsdk_version build_job" "''main''"] by simp
  then have i0: "py_index (split_chr CHR ''@'' (emsdk_version build_job @ ''@main'')) 0
                  = Inr (split_chr CHR ''@'' (emsdk_version build_job @ ''@main'') ! 0)"
    and i1: "py_index (split_chr CHR ''@'' (emsdk_version build_job @ ''@main'')) 1
                  = Inr (split_chr CHR ''@'' (emsdk_version build_job @ ''@main'') ! 1)"
    by (simp_all add: py_index_def split_chr_nonempty)
  show ?thesis
    unfolding job_variables_def i0 i1 sum.case
    by (simp add: OrderedDict_distinct split: sum.split)
qed

lemma job_variables_raises_iff:
  "job_variables python_version build_job = Inl e \<longleftrightarrow> mingw_folder build_job = Inl e"
  by (simp add: job_variables_cases split: sum.split)

lemma job_variables_lookup:
  assumes "job_variables python_version build_job = Inr vars"
  shows "map fst vars =
           [''PYTHON_VERSION'', ''SUBCOMMAND'', ''QT_VERSION'', ''HOST'', ''TARGET'', ''ARCH'',
            ''ARCHDIR'', ''MODULE'', ''QT_BASE_MIRROR'', ''SUBARCHIVES'', ''SPEC'',
            ''MINGW_VARIANT'', ''MINGW_FOLDER'', ''IS_AUTODESKTOP'', ''HAS_WASM'',
            ''OUTPUT_DIR'', ''QT_BINDIR'', ''WIN_QT_BINDIR'', ''EMSDK_VERSION'', ''EMSDK_TAG'',
            ''WIN_AUTODESK_QT_BINDIR'', ''TOOL1_ARGS'', ''LIST_TOOL1_CMD'', ''TEST_TOOL1_CMD'',
            ''TOOL2_ARGS'', ''LIST_TOOL2_CMD'', ''TEST_TOOL2_CMD'', ''CHECK_OUTPUT_CMD'']"
    and "map_of vars ''PYTHON_VERSION'' = Some python_version"
    and "map_of vars ''MODULE'' = Some (or_else (module build_job) [])"
    and "map_of vars ''QT_BASE_MIRROR'' = Some (or_else (mirror build_job) [])"
    and "map_of vars ''SUBARCHIVES'' = Some (or_else (subarchives build_job) [])"
    and "map_of vars ''SPEC'' = Some (or_else (spec build_job) [])"
    and "map_of vars ''MINGW_VARIANT'' = Some (mingw_variant build_job)"
    and "\<exists>folder. mingw_folder build_job = Inr folder
           \<and> map_of vars ''MINGW_FOLDER'' = Some folder"
    and "map_of vars ''HAS_WASM''
           = Some (dict_get (list_options build_job) ''HAS_WASM'' ''True'')"
    and "map_of vars ''OUTPUT_DIR'' = Some (or_else (output_dir build_job) [])"
    and "map_of vars ''QT_BINDIR'' = Some (qt_bindir ''/'' build_job)"
    and "map_of vars ''WIN_QT_BINDIR'' = Some (qt_bindir backslash build_job)"
    and "map_of vars ''EMSDK_VERSION''
           = Some (split_chr CHR ''@'' (emsdk_version build_job @ ''@main'') ! 0)"
    and "map_of vars ''EMSDK_TAG''
           = Some (split_chr CHR ''@'' (emsdk_version build_job @ ''@main'') ! 1)"
    and "map_of vars ''TOOL1_ARGS'' = Some (dict_get (tool_options build_job) ''TOOL1_ARGS'' [])"
    and "map_of vars ''LIST_TOOL1_CMD''
           = Some (dict_get (tool_options build_job) ''LIST_TOOL1_CMD'' [])"
    and "map_of vars ''TEST_TOOL1_CMD''
           = Some (dict_get (tool_options build_job) ''TEST_TOOL1_CMD'' [])"
    and "map_of vars ''TOOL2_ARGS'' = Some (dict_get (tool_options build_job) ''TOOL2_ARGS'' [])"
    and "map_of vars ''LIST_TOOL2_CMD''
           = Some (dict_get (tool_options build_job) ''LIST_TOOL2_CMD'' [])"
    and "map_of vars ''TEST_TOOL2_CMD''
           = Some (dict_get (tool_options build_job) ''TEST_TOOL2_CMD'' [])"
    and "map_of vars ''CHECK_OUTPUT_CMD'' = Some (or_else (check_output_cmd build_job) [])"
proof -
  obtain folder where folder: "mingw_folder build_job = Inr folder"
  proof (cases "mingw_folder build_job")
    case (Inl e)
    then have "job_variables python_version build_job = Inl e"
      by (simp only: job_variables_cases sum.case)
    with assms show ?thesis by simp
  next
    case (Inr folder)
    then show ?thesis by (rule that)
  qed
  note v = assms [unfolded job_variables_cases folder sum.case sum.inject, symmetric]
  show "map fst vars =
           [''PYTHON_VERSION'', ''SUBCOMMAND'', ''QT_VERSION'', ''HOST'', ''TARGET'', ''ARCH'',
            ''ARCHDIR'', ''MODULE'', ''QT_BASE_MIRROR'', ''SUBARCHIVES'', ''SPEC'',
            ''MINGW_VARIANT'', ''MINGW_FOLDER'', ''IS_AUTODESKTOP'', ''HAS_WASM'',
            ''OUTPUT_DIR'', ''QT_BINDIR'', ''WIN_QT_BINDIR'', ''EMSDK_VERSION'', ''EMSDK_TAG'',
            ''WIN_AUTODESK_QT_BINDIR'', ''TOOL1_ARGS'', ''LIST_TOOL1_CMD'', ''TEST_TOOL1_CMD'',
            ''TOOL2_ARGS'', ''LIST_TOOL2_CMD'', ''TEST_TOOL2_CMD'', ''CHECK_OUTPUT_CMD'']"
    unfolding v by simp
  show "map_of vars ''PYTHON_VERSION'' = Some python_version"
    unfolding v by simp
  show "map_of vars ''MODULE'' = Some (or_else (module build_job) [])"
    unfolding v by simp
  show "map_of vars ''QT_BASE_MIRROR'' = Some (or_else (mirror build_job) [])"
    unfolding v by simp
  show "map_of vars ''SUBARCHIVES'' = Some (or_else (subarchives build_job) [])"
    unfolding v by simp
  show "map_of vars ''SPEC'' = Some (or_else (spec build_job) [])"
    unfolding v by simp
  show "map_of vars ''MINGW_VARIANT'' = Some (mingw_variant build_job)"
    unfolding v by simp
  show "\<exists>folder. mingw_folder build_job = Inr folder
           \<and> map_of vars ''MINGW_FOLDER'' = Some folder"
    unfolding v using folder by simp
  show "map_of vars ''HAS_WASM''
           = Some (dict_get (list_options build_job) ''HAS_WASM'' ''True'')"
    unfolding v by simp
  show "map_of vars ''OUTPUT_DIR'' = Some (or_else (output_dir build_job) [])"
    unfolding v by simp
  show "map_of vars ''QT_BINDIR'' = Some (qt_bindir ''/'' build_job)"
    unfolding v by simp
  show "map_of vars ''WIN_QT_BINDIR'' = Some (qt_bindir backslash build_job)"
    unfolding v by (simp add: win_qt_bindir_def)
  show "map_of vars ''EMSDK_VERSION''
           = Some (split_chr CHR ''@'' (emsdk_version build_job @ ''@main'') ! 0)"
    unfolding v by simp
  show "map_of vars ''EMSDK_TAG''
           = Some (split_chr CHR ''@'' (emsdk_version build_job @ ''@main'') ! 1)"
    unfolding v by simp
  show "map_of vars ''TOOL1_ARGS'' = Some (dict_get (tool_options build_job) ''TOOL1_ARGS'' [])"
    unfolding v by simp
  show "map_of vars ''LIST_TOOL1_CMD''
           = Some (dict_get (tool_options build_job) ''LIST_TOOL1_CMD'' [])"
    unfolding v by simp
  show "map_of vars ''TEST_TOOL1_CMD''
           = Some (dict_get (tool_options build_job) ''TEST_TOOL1_CMD'' [])"
    unfolding v by simp
  show "map_of vars ''TOOL2_ARGS'' = Some (dict_get (tool_options build_job) ''TOOL2_ARGS'' [])"
    unfolding v by simp
  show "map_of vars ''LIST_TOOL2_CMD''
           = Some (dict_get (tool_options build_job) ''LIST_TOOL2_CMD'' [])"
    unfolding v by simp
  show "map_of vars ''TEST_TOOL2_CMD''
           = Some (dict_get (tool_options build_job) ''TEST_TOOL2_CMD'' [])"
    unfolding v by simp
  show "map_of vars ''CHECK_OUTPUT_CMD'' = Some (or_else (check_output_cmd build_job) [])"
    unfolding v by simp
qed

lemma job_variables_total:
  "mingw_folder build_job = Inr folder \<Longrightarrow> \<exists>vars. job_variables python_version build_job = Inr vars"
  by (simp add: job_variables_cases)

lemma qt_bindir_default_root:
  "\<not> truthy (output_dir build_job) \<Longrightarrow>
     prefix (''$(Build.BinariesDirectory)'' @ sep @ ''Qt'' @ sep) (qt_bindir sep build_job)"
  by (auto simp: qt_bindir_def Let_def truthy_def or_else_def split: option.splits)

lemma qt_bindir_override_root:
  "output_dir build_job = Some d \<Longrightarrow> d \<noteq> [] \<Longrightarrow> prefix (d @ sep) (qt_bindir sep build_job)"
  by (simp add: qt_bindir_def Let_def or_else_def)

text \<open>
  C7: in the variables of a job with no output directory (\<^verbatim>\<open>None\<close> or the empty
  string) \<^verbatim>\<open>QT_BINDIR\<close> starts with \<^verbatim>\<open>$(Build.BinariesDirectory)/Qt/\<close> and
  \<^verbatim>\<open>WIN_QT_BINDIR\<close> with the same path written with backslashes; with an output
  directory \<open>d\<close> set, they start with \<open>d\<close> followed by the slash and by the backslash.
\<close>

theorem bindir_root:
  assumes "job_variables python_version build_job = Inr vars"
  shows "\<exists>q w. map_of vars ''QT_BINDIR'' = Some q \<and> map_of vars ''WIN_QT_BINDIR'' = Some w
           \<and> (\<not> truthy (output_dir build_job) \<longrightarrow>
                 prefix ''$(Build.BinariesDirectory)/Qt/'' q
                 \<and> prefix (''$(Build.BinariesDirectory)'' @ backslash @ ''Qt'' @ backslash) w)
           \<and> (\<forall>d. output_dir build_job = Some d \<and> d \<noteq> [] \<longrightarrow>
                 prefix (d @ ''/'') q \<and> prefix (d @ backslash) w)"
proof (intro exI conjI impI allI)
  show "map_of vars ''QT_BINDIR'' = Some (qt_bindir ''/'' build_job)"
    by (rule job_variables_lookup [OF assms])
  show "map_of vars ''WIN_QT_BINDIR'' = Some (qt_bindir backslash build_job)"
    by (rule job_variables_lookup [OF assms])
  show "prefix ''$(Build.BinariesDirectory)/Qt/'' (qt_bindir ''/'' build_job)"
    if "\<not> truthy (output_dir build_job)"
    using qt_bindir_default_root [OF that, of "''/''"] by simp
  show "prefix (''$(Build.BinariesDirectory)'' @ backslash @ ''Qt'' @ backslash)
          (qt_bindir backslash build_job)"
    if "\<not> truthy (output_dir build_job)"
    using that by (rule qt_bindir_default_root)
  show "prefix (d @ ''/'') (qt_bindir ''/'' build_job)"
    if "output_dir build_job = Some d \<and> d \<noteq> []" for d
    using that by (auto intro: qt_bindir_override_root)
  show "prefix (d @ backslash) (qt_bindir backslash build_job)"
    if "output_dir build_job = Some d \<and> d \<noteq> []" for d
    using that by (auto intro: qt_bindir_override_root)
qed

theorem bindir_root_witness:
  "(\<exists>vars q w.
      job_variables ''3.9''
        ((BuildJob_init ''install-qt'' ''5.11.3'' ''windows'' ''desktop'' ''win64_msvc2015_64''
            ''msvc2015_64'') \<lparr> subarchives := Some ''qttools qtbase'' \<rparr>) = Inr vars
      \<and> map_of vars ''QT_BINDIR'' = Some q \<and> map_of vars ''WIN_QT_BINDIR'' = Some w
      \<and> prefix ''$(Build.BinariesDirectory)/Qt/'' q
      \<and> prefix (''$(Build.BinariesDirectory)'' @ backslash @ ''Qt'' @ backslash) w)
   \<and> (\<exists>vars q w.
      job_variables ''3.9''
        ((BuildJob_init ''install-qt'' ''5.11.3'' ''windows'' ''desktop'' ''win64_msvc2015_64''
            ''msvc2015_64'') \<lparr> output_dir := Some ''out'' \<rparr>) = Inr vars
      \<and> map_of vars ''QT_BINDIR'' = Some q \<and> map_of vars ''WIN_QT_BINDIR'' = Some w
      \<and> prefix ''out/'' q \<and> prefix (''out'' @ backslash) w)"
proof -
  let ?j1 = "(BuildJob_init ''install-qt'' ''5.11.3'' ''windows'' ''desktop''
                ''win64_msvc2015_64'' ''msvc2015_64'') \<lparr> subarchives := Some ''qttools qtbase'' \<rparr>"
  let ?j2 = "(BuildJob_init ''install-qt'' ''5.11.3'' ''windows'' ''desktop''
                ''win64_msvc2015_64'' ''msvc2015_64'') \<lparr> output_dir := Some ''out'' \<rparr>"
  have "mingw_folder ?j1 = Inr []" "mingw_folder ?j2 = Inr []"
    by (simp_all add: mingw_folder_def BuildJob_init_def)
  then obtain vars1 vars2
    where v1: "job_variables ''3.9'' ?j1 = Inr vars1"
      and v2: "job_variables ''3.9'' ?j2 = Inr vars2"
    using job_variables_total by blast
  have o1: "\<not> truthy (output_dir ?j1)"
    by (simp add: BuildJob_init_def truthy_def)
  have o2: "output_dir ?j2 = Some ''out'' \<and> ''out'' \<noteq> []"
    by simp
  from bindir_root [OF v1] o1 have "\<exists>q w.
      map_of vars1 ''QT_BINDIR'' = Some q \<and> map_of vars1 ''WIN_QT_BINDIR'' = Some w
      \<and> prefix ''$(Build.BinariesDirectory)/Qt/'' q
      \<and> prefix (''$(Build.BinariesDirectory)'' @ backslash @ ''Qt'' @ backslash) w"
    by blast
  moreover from bindir_root [OF v2] o2 have "\<exists>q w.
      map_of vars2 ''QT_BINDIR'' = Some q \<and> map_of vars2 ''WIN_QT_BINDIR'' = Some w
      \<and> prefix (''out'' @ ''/'') q \<and> prefix (''out'' @ backslash) w"
    by blast
  ultimately show ?thesis
    using v1 v2 by auto
qed

text \<open>
  C8: for the toolchain field \<^verbatim>\<open>sdk-fastcomp-1.38.27-64bit@3.1.29\<close> the variable
  \<^verbatim>\<open>EMSDK_VERSION\<close> is \<^verbatim>\<open>sdk-fastcomp-1.38.27-64bit\<close> and \<^verbatim>\<open>EMSDK_TAG\<close> is
  \<^verbatim>\<open>3.1.29\<close>; for a field without \<^verbatim>\<open>@\<close>, \<^verbatim>\<open>EMSDK_VERSION\<close> is the field and
  \<^verbatim>\<open>EMSDK_TAG\<close> is \<^verbatim>\<open>main\<close>.
\<close>

theorem emsdk_split:
  assumes "job_variables python_version build_job = Inr vars"
  shows "(emsdk_version build_job = ''sdk-fastcomp-1.38.27-64bit@3.1.29'' \<longrightarrow>
            map_of vars ''EMSDK_VERSION'' = Some ''sdk-fastcomp-1.38.27-64bit''
            \<and> map_of vars ''EMSDK_TAG'' = Some ''3.1.29'')
         \<and> (CHR ''@'' \<notin> set (emsdk_version build_job) \<longrightarrow>
            map_of vars ''EMSDK_VERSION'' = Some (emsdk_version build_job)
            \<and> map_of vars ''EMSDK_TAG'' = Some ''main'')"
proof -
  note v = job_variables_lookup(13) [OF assms]
  note t = job_variables_lookup(14) [OF assms]
  have plain: "split_chr CHR ''@'' (emsdk_version build_job @ ''@main'')
          = [emsdk_version build_job, ''main'']"
    if "CHR ''@'' \<notin> set (emsdk_version build_job)"
    using split_chr_no_sep [OF that, of "''main''"] by simp
  have dflt: "split_chr CHR ''@'' (''sdk-fastcomp-1.38.27-64bit@3.1.29'' @ ''@main'')
          = [''sdk-fastcomp-1.38.27-64bit'', ''3.1.29'', ''main'']"
    by simp
  show ?thesis
  proof (intro conjI impI)
    assume "emsdk_version build_job = ''sdk-fastcomp-1.38.27-64bit@3.1.29''"
    then show "map_of vars ''EMSDK_VERSION'' = Some ''sdk-fastcomp-1.38.27-64bit''"
      and "map_of vars ''EMSDK_TAG'' = Some ''3.1.29''"
      using v t dflt by simp_all
  next
    assume "CHR ''@'' \<notin> set (emsdk_version build_job)"
    then show "map_of vars ''EMSDK_VERSION'' = Some (emsdk_version build_job)"
      and "map_of vars ''EMSDK_TAG'' = Some ''main''"
      using v t plain by simp_all
  qed
qed

theorem emsdk_split_witness:
  "(\<exists>vars.
      job_variables ''3.9''
        (BuildJob_init ''install-qt'' ''5.11.3'' ''windows'' ''desktop'' ''win64_msvc2015_64''
            ''msvc2015_64'') = Inr vars
      \<and> map_of vars ''EMSDK_VERSION'' = Some ''sdk-fastcomp-1.38.27-64bit''
      \<and> map_of vars ''EMSDK_TAG'' = Some ''3.1.29'')
   \<and> (\<exists>vars.
      job_variables ''3.9''
        ((BuildJob_init ''install-qt'' ''6.2.0'' ''windows'' ''desktop'' ''wasm_32''
            ''wasm_32'') \<lparr> emsdk_version := ''sdk-2.0.14-64bit'' \<rparr>) = Inr vars
      \<and> map_of vars ''EMSDK_VERSION'' = Some ''sdk-2.0.14-64bit''
      \<and> map_of vars ''EMSDK_TAG'' = Some ''main'')"
proof -
  let ?j1 = "BuildJob_init ''install-qt'' ''5.11.3'' ''windows'' ''desktop''
                ''win64_msvc2015_64'' ''msvc2015_64''"
  let ?j2 = "(BuildJob_init ''install-qt'' ''6.2.0'' ''windows'' ''desktop'' ''wasm_32''
            ''wasm_32'') \<lparr> emsdk_version := ''sdk-2.0.14-64bit'' \<rparr>"
  have "mingw_folder ?j1 = Inr []" "mingw_folder ?j2 = Inr []"
    by (simp_all add: mingw_folder_def BuildJob_init_def)
  then obtain vars1 vars2
    where v1: "job_variables ''3.9'' ?j1 = Inr vars1"
      and v2: "job_variables ''3.9'' ?j2 = Inr vars2"
    using job_variables_total by blast
  have e1: "emsdk_version ?j1 = ''sdk-fastcomp-1.38.27-64bit@3.1.29''"
    by (simp add: BuildJob_init_def)
  have e2: "CHR ''@'' \<notin> set (emsdk_version ?j2)" "emsdk_version ?j2 = ''sdk-2.0.14-64bit''"
    by simp_all
  from emsdk_split [OF v1] e1
  have "map_of vars1 ''EMSDK_VERSION'' = Some ''sdk-fastcomp-1.38.27-64bit''
      \<and> map_of vars1 ''EMSDK_TAG'' = Some ''3.1.29''"
    by blast
  moreover from emsdk_split [OF v2] e2
  have "map_of vars2 ''EMSDK_VERSION'' = Some ''sdk-2.0.14-64bit''
      \<and> map_of vars2 ''EMSDK_TAG'' = Some ''main''"
    by metis
  ultimately show ?thesis
    using v1 v2 by blast
qed

lemma or_else_absent: "\<not> truthy x \<Longrightarrow> or_else x [] = []"
  by (simp add: truthy_def or_else_def split: option.splits)

text \<open>
  C9: the derivation of the variables raises exactly when \<open>mingw_folder\<close> does, so no absent
  optional field makes it raise, and with no MinGW variant it returns. What it returns
  has the twenty-eight variable names, each once and in the order of the source, every
  value a string: the empty string for an absent module, mirror, sub-archive list,
  version spec, output directory, check command and MinGW variant (and its folder),
  \<^verbatim>\<open>True\<close> for \<^verbatim>\<open>HAS_WASM\<close> when the list options have no such key, \<^verbatim>\<open>main\<close> for
  the toolchain tag when the toolchain field has no \<^verbatim>\<open>@\<close>, the empty string for all six
  tool variables when there are no tool options, and with \<^verbatim>\<open>TOOL1_ARGS\<close> as the only
  tool option that value for \<^verbatim>\<open>TOOL1_ARGS\<close> and the empty string for the other five.
\<close>

theorem absent_fields_default:
  "(job_variables python_version build_job = Inl e \<longleftrightarrow> mingw_folder build_job = Inl e)
   \<and> (mingw_variant build_job = [] \<longrightarrow>
        (\<exists>vars. job_variables python_version build_job = Inr vars))
   \<and> (\<forall>vars. job_variables python_version build_job = Inr vars \<longrightarrow>
        map fst vars =
           [''PYTHON_VERSION'', ''SUBCOMMAND'', ''QT_VERSION'', ''HOST'', ''TARGET'', ''ARCH'',
            ''ARCHDIR'', ''MODULE'', ''QT_BASE_MIRROR'', ''SUBARCHIVES'', ''SPEC'',
            ''MINGW_VARIANT'', ''MINGW_FOLDER'', ''IS_AUTODESKTOP'', ''HAS_WASM'',
            ''OUTPUT_DIR'', ''QT_BINDIR'', ''WIN_QT_BINDIR'', ''EMSDK_VERSION'', ''EMSDK_TAG'',
            ''WIN_AUTODESK_QT_BINDIR'', ''TOOL1_ARGS'', ''LIST_TOOL1_CMD'', ''TEST_TOOL1_CMD'',
            ''TOOL2_ARGS'', ''LIST_TOOL2_CMD'', ''TEST_TOOL2_CMD'', ''CHECK_OUTPUT_CMD'']
        \<and> (\<not> truthy (module build_job) \<longrightarrow> map_of vars ''MODULE'' = Some [])
        \<and> (\<not> truthy (mirror build_job) \<longrightarrow> map_of vars ''QT_BASE_MIRROR'' = Some [])
        \<and> (\<not> truthy (subarchives build_job) \<longrightarrow> map_of vars ''SUBARCHIVES'' = Some [])
        \<and> (\<not> truthy (spec build_job) \<longrightarrow> map_of vars ''SPEC'' = Some [])
        \<and> (\<not> truthy (output_dir build_job) \<longrightarrow> map_of vars ''OUTPUT_DIR'' = Some [])
        \<and> (\<not> truthy (check_output_cmd build_job) \<longrightarrow>
              map_of vars ''CHECK_OUTPUT_CMD'' = Some [])
        \<and> (mingw_variant build_job = [] \<longrightarrow>
              map_of vars ''MINGW_VARIANT'' = Some [] \<and> map_of vars ''MINGW_FOLDER'' = Some [])
        \<and> (list_options build_job ''HAS_WASM'' = None \<longrightarrow>
              map_of vars ''HAS_WASM'' = Some ''True'')
        \<and> (CHR ''@'' \<notin> set (emsdk_version build_job) \<longrightarrow>
              map_of vars ''EMSDK_TAG'' = Some ''main'')
        \<and> (tool_options build_job = Map.empty \<longrightarrow>
              map_of vars ''TOOL1_ARGS'' = Some [] \<and> map_of vars ''LIST_TOOL1_CMD'' = Some []
              \<and> map_of vars ''TEST_TOOL1_CMD'' = Some [] \<and> map_of vars ''TOOL2_ARGS'' = Some []
              \<and> map_of vars ''LIST_TOOL2_CMD'' = Some []
              \<and> map_of vars ''TEST_TOOL2_CMD'' = Some [])
        \<and> (\<forall>args. tool_options build_job = [''TOOL1_ARGS'' \<mapsto> args] \<longrightarrow>
              map_of vars ''TOOL1_ARGS'' = Some args \<and> map_of vars ''LIST_TOOL1_CMD'' = Some []
              \<and> map_of vars ''TEST_TOOL1_CMD'' = Some [] \<and> map_of vars ''TOOL2_ARGS'' = Some []
              \<and> map_of vars ''LIST_TOOL2_CMD'' = Some []
              \<and> map_of vars ''TEST_TOOL2_CMD'' = Some []))"
proof (intro conjI allI impI)
  show "job_variables python_version build_job = Inl e \<longleftrightarrow> mingw_folder build_job = Inl e"
    by (rule job_variables_raises_iff)
next
  assume "mingw_variant build_job = []"
  then have "mingw_folder build_job = Inr []"
    by (simp add: mingw_folder_def)
  then show "\<exists>vars. job_variables python_version build_job = Inr vars"
    by (rule job_variables_total)
next
  fix vars
  assume v: "job_variables python_version build_job = Inr vars"
  note look = job_variables_lookup [OF v]
  show "map fst vars =
           [''PYTHON_VERSION'', ''SUBCOMMAND'', ''QT_VERSION'', ''HOST'', ''TARGET'', ''ARCH'',
            ''ARCHDIR'', ''MODULE'', ''QT_BASE_MIRROR'', ''SUBARCHIVES'', ''SPEC'',
            ''MINGW_VARIANT'', ''MINGW_FOLDER'', ''IS_AUTODESKTOP'', ''HAS_WASM'',
            ''OUTPUT_DIR'', ''QT_BINDIR'', ''WIN_QT_BINDIR'', ''EMSDK_VERSION'', ''EMSDK_TAG'',
            ''WIN_AUTODESK_QT_BINDIR'', ''TOOL1_ARGS'', ''LIST_TOOL1_CMD'', ''TEST_TOOL1_CMD'',
            ''TOOL2_ARGS'', ''LIST_TOOL2_CMD'', ''TEST_TOOL2_CMD'', ''CHECK_OUTPUT_CMD'']"
    by (rule look(1))
  show "map_of vars ''MODULE'' = Some []" if "\<not> truthy (module build_job)"
    using look(3) that by (simp add: or_else_absent)
  show "map_of vars ''QT_BASE_MIRROR'' = Some []" if "\<not> truthy (mirror build_job)"
    using look(4) that by (simp add: or_else_absent)
  show "map_of vars ''SUBARCHIVES'' = Some []" if "\<not> truthy (subarchives build_job)"
    using look(5) that by (simp add: or_else_absent)
  show "map_of vars ''SPEC'' = Some []" if "\<not> truthy (spec build_job)"
    using look(6) that by (simp add: or_else_absent)
  show "map_of vars ''OUTPUT_DIR'' = Some []" if "\<not> truthy (output_dir build_job)"
    using look(10) that by (simp add: or_else_absent)
  show "map_of vars ''CHECK_OUTPUT_CMD'' = Some []" if "\<not> truthy (check_output_cmd build_job)"
    using look(21) that by (simp add: or_else_absent)
  show "map_of vars ''MINGW_VARIANT'' = Some []" if "mingw_variant build_job = []"
    using look(7) that by simp
  show "map_of vars ''MINGW_FOLDER'' = Some []" if "mingw_variant build_job = []"
    using look(8) that by (auto simp: mingw_folder_def)
  show "map_of vars ''HAS_WASM'' = Some ''True''" if "list_options build_job ''HAS_WASM'' = None"
    using look(9) that by (simp add: dict_get_def)
  show "map_of vars ''EMSDK_TAG'' = Some ''main''" if "CHR ''@'' \<notin> set (emsdk_version build_job)"
    using look(14) split_chr_no_sep [OF that, of "''main''"] by simp
  show "map_of vars ''TOOL1_ARGS'' = Some []" if "tool_options build_job = Map.empty"
    using look(15) that by (simp add: dict_get_def)
  show "map_of vars ''LIST_TOOL1_CMD'' = Some []" if "tool_options build_job = Map.empty"
    using look(16) that by (simp add: dict_get_def)
  show "map_of vars ''TEST_TOOL1_CMD'' = Some []" if "tool_options build_job = Map.empty"
    using look(17) that by (simp add: dict_get_def)
  show "map_of vars ''TOOL2_ARGS'' = Some []" if "tool_options build_job = Map.empty"
    using look(18) that by (simp add: dict_get_def)
  show "map_of vars ''LIST_TOOL2_CMD'' = Some []" if "tool_options build_job = Map.empty"
    using look(19) that by (simp add: dict_get_def)
  show "map_of vars ''TEST_TOOL2_CMD'' = Some []" if "tool_options build_job = Map.empty"
    using look(20) that by (simp add: dict_get_def)
  show "map_of vars ''TOOL1_ARGS'' = Some args"
    if "tool_options build_job = [''TOOL1_ARGS'' \<mapsto> args]" for args
    using look(15) that by (simp add: dict_get_def)
  show "map_of vars ''LIST_TOOL1_CMD'' = Some []"
    if "tool_options build_job = [''TOOL1_ARGS'' \<mapsto> args]" for args
    using look(16) that by (simp add: dict_get_def)
  show "map_of vars ''TEST_TOOL1_CMD'' = Some []"
    if "tool_options build_job = [''TOOL1_ARGS'' \<mapsto> args]" for args
    using look(17) that by (simp add: dict_get_def)
  show "map_of vars ''TOOL2_ARGS'' = Some []"
    if "tool_options build_job = [''TOOL1_ARGS'' \<mapsto> args]" for args
    using look(18) that by (simp add: dict_get_def)
  show "map_of vars ''LIST_TOOL2_CMD'' = Some []"
    if "tool_options build_job = [''TOOL1_ARGS'' \<mapsto> args]" for args
    using look(19) that by (simp add: dict_get_def)
  show "map_of vars ''TEST_TOOL2_CMD'' = Some []"
    if "tool_options build_job = [''TOOL1_ARGS'' \<mapsto> args]" for args
    using look(20) that by (simp add: dict_get_def)
qed

theorem absent_fields_default_witness:
  "(case job_variables ''3.9''
        (BuildJob_init ''install-qt'' ''5.11.3'' ''windows'' ''desktop'' ''win64_msvc2015_64''
            ''msvc2015_64'') of
      Inl e \<Rightarrow> False
    | Inr vars \<Rightarrow>
        length vars = 28
      \<and> map_of vars ''MODULE'' = Some [] \<and> map_of vars ''QT_BASE_MIRROR'' = Some []
      \<and> map_of vars ''SUBARCHIVES'' = Some [] \<and> map_of vars ''SPEC'' = Some []
      \<and> map_of vars ''OUTPUT_DIR'' = Some [] \<and> map_of vars ''CHECK_OUTPUT_CMD'' = Some []
      \<and> map_of vars ''MINGW_VARIANT'' = Some [] \<and> map_of vars ''MINGW_FOLDER'' = Some []
      \<and> map_of vars ''HAS_WASM'' = Some ''True''
      \<and> map_of vars ''TOOL1_ARGS'' = Some [] \<and> map_of vars ''LIST_TOOL1_CMD'' = Some []
      \<and> map_of vars ''TEST_TOOL1_CMD'' = Some [] \<and> map_of vars ''TOOL2_ARGS'' = Some []
      \<and> map_of vars ''LIST_TOOL2_CMD'' = Some [] \<and> map_of vars ''TEST_TOOL2_CMD'' = Some [])
   \<and> (case job_variables ''3.9''
        ((BuildJob_init ''install-tool'' ''6.2.0'' ''windows'' ''desktop'' ''wasm_32''
            ''wasm_32'')
           \<lparr> tool_options := [''TOOL1_ARGS'' \<mapsto> ''tools_qtcreator qt.tools.qtcreator''],
             emsdk_version := ''sdk-2.0.14-64bit'' \<rparr>) of
      Inl e \<Rightarrow> False
    | Inr vars \<Rightarrow>
        map_of vars ''EMSDK_TAG'' = Some ''main''
      \<and> map_of vars ''TOOL1_ARGS'' = Some ''tools_qtcreator qt.tools.qtcreator''
      \<and> map_of vars ''LIST_TOOL1_CMD'' = Some []
      \<and> map_of vars ''TEST_TOOL1_CMD'' = Some [] \<and> map_of vars ''TOOL2_ARGS'' = Some []
      \<and> map_of vars ''LIST_TOOL2_CMD'' = Some [] \<and> map_of vars ''TEST_TOOL2_CMD'' = Some [])"
proof (rule conjI)
  define j1 where "j1 = BuildJob_init ''install-qt'' ''5.11.3'' ''windows'' ''desktop''
               ''win64_msvc2015_64'' ''msvc2015_64''"
  have h: "mingw_variant j1 = []" "\<not> truthy (module j1)" "\<not> truthy (mirror j1)"
    "\<not> truthy (subarchives j1)" "\<not> truthy (spec j1)" "\<not> truthy (output_dir j1)"
    "\<not> truthy (check_output_cmd j1)" "list_options j1 ''HAS_WASM'' = None"
    "tool_options j1 = Map.empty"
    by (simp_all add: j1_def BuildJob_init_def truthy_def)
  note t = absent_fields_default [of "''3.9''" j1 TypeError]
  from t [THEN conjunct2, THEN conjunct1, THEN mp, OF h(1)]
  obtain vars where v: "job_variables ''3.9'' j1 = Inr vars" ..
  note d = t [THEN conjunct2, THEN conjunct2, THEN spec, THEN mp, OF v]
  have "length (map fst vars) = 28"
    unfolding d [THEN conjunct1] by simp
  then have len: "length vars = 28"
    by simp
  have "case job_variables ''3.9'' j1 of
      Inl e \<Rightarrow> False
    | Inr vars \<Rightarrow>
        length vars = 28
      \<and> map_of vars ''MODULE'' = Some [] \<and> map_of vars ''QT_BASE_MIRROR'' = Some []
      \<and> map_of vars ''SUBARCHIVES'' = Some [] \<and> map_of vars ''SPEC'' = Some []
      \<and> map_of vars ''OUTPUT_DIR'' = Some [] \<and> map_of vars ''CHECK_OUTPUT_CMD'' = Some []
      \<and> map_of vars ''MINGW_VARIANT'' = Some [] \<and> map_of vars ''MINGW_FOLDER'' = Some []
      \<and> map_of vars ''HAS_WASM'' = Some ''True''
      \<and> map_of vars ''TOOL1_ARGS'' = Some [] \<and> map_of vars ''LIST_TOOL1_CMD'' = Some []
      \<and> map_of vars ''TEST_TOOL1_CMD'' = Some [] \<and> map_of vars ''TOOL2_ARGS'' = Some []
      \<and> map_of vars ''LIST_TOOL2_CMD'' = Some [] \<and> map_of vars ''TEST_TOOL2_CMD'' = Some []"
    unfolding v sum.case
    using len d [THEN conjunct2] by (simp only: h simp_thms)
  then show "case job_variables ''3.9''
        (BuildJob_init ''install-qt'' ''5.11.3'' ''windows'' ''desktop'' ''win64_msvc2015_64''
            ''msvc2015_64'') of
      Inl e \<Rightarrow> False
    | Inr vars \<Rightarrow>
        length vars = 28
      \<and> map_of vars ''MODULE'' = Some [] \<and> map_of vars ''QT_BASE_MIRROR'' = Some []
      \<and> map_of vars ''SUBARCHIVES'' = Some [] \<and> map_of vars ''SPEC'' = Some []
      \<and> map_of vars ''OUTPUT_DIR'' = Some [] \<and> map_of vars ''CHECK_OUTPUT_CMD'' = Some []
      \<and> map_of vars ''MINGW_VARIANT'' = Some [] \<and> map_of vars ''MINGW_FOLDER'' = Some []
      \<and> map_of vars ''HAS_WASM'' = Some ''True''
      \<and> map_of vars ''TOOL1_ARGS'' = Some [] \<and> map_of vars ''LIST_TOOL1_CMD'' = Some []
      \<and> map_of vars ''TEST_TOOL1_CMD'' = Some [] \<and> map_of vars ''TOOL2_ARGS'' = Some []
      \<and> map_of vars ''LIST_TOOL2_CMD'' = Some [] \<and> map_of vars ''TEST_TOOL2_CMD'' = Some []"
    unfolding j1_def .
next
  define j2 where "j2 = (BuildJob_init ''install-tool'' ''6.2.0'' ''windows'' ''desktop''
            ''wasm_32'' ''wasm_32'')
           \<lparr> tool_options := [''TOOL1_ARGS'' \<mapsto> ''tools_qtcreator qt.tools.qtcreator''],
             emsdk_version := ''sdk-2.0.14-64bit'' \<rparr>"
  have h: "mingw_variant j2 = []" "CHR ''@'' \<notin> set (emsdk_version j2)"
    "tool_options j2 = [''TOOL1_ARGS'' \<mapsto> ''tools_qtcreator qt.tools.qtcreator'']"
    by (simp_all add: j2_def BuildJob_init_def)
  note t = absent_fields_default [of "''3.9''" j2 TypeError]
  from t [THEN conjunct2, THEN conjunct1, THEN mp, OF h(1)]
  obtain vars where v: "job_variables ''3.9'' j2 = Inr vars" ..
  note d = t [THEN conjunct2, THEN conjunct2, THEN spec, THEN mp, OF v]
  from d have "CHR ''@'' \<notin> set (emsdk_version j2) \<longrightarrow>
        map_of vars ''EMSDK_TAG'' = Some ''main''"
    by (elim conjE)
  then have tag: "map_of vars ''EMSDK_TAG'' = Some ''main''"
    using h(2) by (rule mp)
  from d have "\<forall>args. tool_options j2 = [''TOOL1_ARGS'' \<mapsto> args] \<longrightarrow>
              map_of vars ''TOOL1_ARGS'' = Some args \<and> map_of vars ''LIST_TOOL1_CMD'' = Some []
              \<and> map_of vars ''TEST_TOOL1_CMD'' = Some [] \<and> map_of vars ''TOOL2_ARGS'' = Some []
              \<and> map_of vars ''LIST_TOOL2_CMD'' = Some []
              \<and> map_of vars ''TEST_TOOL2_CMD'' = Some []"
    by (elim conjE)
  note tools = this [THEN spec, THEN mp, OF h(3)]
  have "case job_variables ''3.9'' j2 of
      Inl e \<Rightarrow> False
    | Inr vars \<Rightarrow>
        map_of vars ''EMSDK_TAG'' = Some ''main''
      \<and> map_of vars ''TOOL1_ARGS'' = Some ''tools_qtcreator qt.tools.qtcreator''
      \<and> map_of vars ''LIST_TOOL1_CMD'' = Some []
      \<and> map_of vars ''TEST_TOOL1_CMD'' = Some [] \<and> map_of vars ''TOOL2_ARGS'' = Some []
      \<and> map_of vars ''LIST_TOOL2_CMD'' = Some [] \<and> map_of vars ''TEST_TOOL2_CMD'' = Some []"
    unfolding v sum.case
    using tag tools by (rule conjI)
  then show "case job_variables ''3.9''
        ((BuildJob_init ''install-tool'' ''6.2.0'' ''windows'' ''desktop'' ''wasm_32''
            ''wasm_32'')
           \<lparr> tool_options := [''TOOL1_ARGS'' \<mapsto> ''tools_qtcreator qt.tools.qtcreator''],
             emsdk_version := ''sdk-2.0.14-64bit'' \<rparr>) of
      Inl e \<Rightarrow> False
    | Inr vars \<Rightarrow>
        map_of vars ''EMSDK_TAG'' = Some ''main''
      \<and> map_of vars ''TOOL1_ARGS'' = Some ''tools_qtcreator qt.tools.qtcreator''
      \<and> map_of vars ''LIST_TOOL1_CMD'' = Some []
      \<and> map_of vars ''TEST_TOOL1_CMD'' = Some [] \<and> map_of vars ''TOOL2_ARGS'' = Some []
      \<and> map_of vars ''LIST_TOOL2_CMD'' = Some [] \<and> map_of vars ''TEST_TOOL2_CMD'' = Some []"
    unfolding j2_def .
qed

subsection \<open>The matrix of a platform\<close>





text \<open>The key does not name the interpreter version: two versions share one entry.\<close>

lemma matrix_dictionary_two_versions:
  "case matrix_dictionary [''3.9'', ''3.10'']
          [BuildJob_init ''install-qt'' ''5.11.3'' ''windows'' ''desktop'' ''win64_msvc2015_64''
             ''msvc2015_64''] of
     Inl e \<Rightarrow> False
   | Inr m \<Rightarrow> length m = 1 \<and> map_option (\<lambda>vars. map_of vars ''PYTHON_VERSION'')
                                 (map_of m ''install-qt 5.11.3 win64_msvc2015_64 for desktop'')
                             = Some (Some ''3.10'')"
proof -
  define j where "j = BuildJob_init ''install-qt'' ''5.11.3'' ''windows'' ''desktop''
      ''win64_msvc2015_64'' ''msvc2015_64''"
  have k: "job_key j = ''install-qt 5.11.3 win64_msvc2015_64 for desktop''"
    by (simp add: j_def job_key_def BuildJob_init_def truthy_def Let_def)
  have "mingw_folder j = Inr []"
    by (simp add: j_def mingw_folder_def BuildJob_init_def)
  then obtain v1 v2 where v1: "job_variables ''3.9'' j = Inr v1"
    and v2: "job_variables ''3.10'' j = Inr v2"
    using job_variables_total by blast
  have m: "matrix_dictionary [''3.9'', ''3.10''] [j] = Inr [(job_key j, v2)]"
    by (simp add: matrix_dictionary_def v1 v2)
  have "map_of v2 ''PYTHON_VERSION'' = Some ''3.10''"
    by (rule job_variables_lookup(2) [OF v2])
  then have "case matrix_dictionary [''3.9'', ''3.10''] [j] of
     Inl e \<Rightarrow> False
   | Inr m \<Rightarrow> length m = 1 \<and> map_option (\<lambda>vars. map_of vars ''PYTHON_VERSION'')
                                 (map_of m ''install-qt 5.11.3 win64_msvc2015_64 for desktop'')
                             = Some (Some ''3.10'')"
    unfolding m sum.case k by simp
  then show ?thesis
    unfolding j_def .
qed

subsection \<open>The script\<close>

lemma matrix_loop_total:
  "list_all (\<lambda>(j, v). \<not> isl (mingw_folder j)) pairs \<Longrightarrow> \<exists>m. matrix_loop d pairs = Inr m"
proof (induction pairs arbitrary: d)
  case Nil
  then show ?case by simp
next
  case (Cons p pairs)
  obtain j v where p: "p = (j, v)" by (cases p)
  from Cons.prems p obtain folder where "mingw_folder j = Inr folder"
    by (cases "mingw_folder j") auto
  then obtain vars where vars: "job_variables v j = Inr vars"
    using job_variables_total by blast
  have "list_all (\<lambda>(j, v). \<not> isl (mingw_folder j)) pairs"
    using Cons.prems by simp
  from Cons.IH [OF this, of "od_set d (job_key j) vars"] show ?case
    using p vars by simp
qed

lemma windows_matrix_total:
  "\<exists>m. matrix_dictionary python_versions (windows_build_jobs mirror1 mirror2) = Inr m"
proof -
  have "list_all (\<lambda>j. \<not> isl (mingw_folder j)) (windows_build_jobs mirror1 mirror2)"
    by (simp add: windows_build_jobs_def BuildJob_init_def mingw_folder_def
        re_match_mingw_def is_digit_def newline_def)
  then have "list_all (\<lambda>(j, v). \<not> isl (mingw_folder j))
               (List.product (windows_build_jobs mirror1 mirror2) python_versions)"
    by (auto simp: list_all_iff)
  then show ?thesis
    unfolding matrix_dictionary_def by (rule matrix_loop_total)
qed

lemma script_cases:
  "script linux_build_jobs mac_build_jobs w =
     (case matrix_dictionary python_versions w of
        Inl e \<Rightarrow> ([], Some e)
      | Inr m \<Rightarrow>
          ([''Setting Variables below'',
            ''##vso[task.setVariable variable=windows;isOutput=true]'' @ json_dumps m,
            ''##vso[task.setVariable variable=linux;isOutput=true]'',
            ''##vso[task.setVariable variable=mac;isOutput=true]''], None))"
  by (simp add: script_def all_platform_build_jobs_def set_variable_def split: sum.split)

lemma program_script:
  "program r1 r2 =
     script [] [] (windows_build_jobs (MIRRORS ! (r1 mod 3)) (MIRRORS ! (r2 mod 3)))"
  by (simp add: program_def choice_def MIRRORS_def)

lemma json_dumps_object: "\<exists>body. json_dumps m = ''{'' @ body @ ''}''"
  unfolding json_dumps_def json_object_def by blast


text \<open>
  C10: whatever the Linux and the macOS job lists hold, the script prints what it prints
  for empty lists, and whenever it prints its lines the third and the fourth are the
  markers for \<^verbatim>\<open>linux\<close> and \<^verbatim>\<open>mac\<close> with the empty payload: only the Windows list is
  registered, and the two lines are written out in the source.
\<close>

theorem script_ignores_linux_mac:
  "script linux_build_jobs mac_build_jobs w = script [] [] w
   \<and> (\<forall>out. script linux_build_jobs mac_build_jobs w = (out, None) \<longrightarrow>
         length out = 4
         \<and> out ! 2 = ''##vso[task.setVariable variable=linux;isOutput=true]''
         \<and> out ! 3 = ''##vso[task.setVariable variable=mac;isOutput=true]'')"
  by (auto simp: script_cases split: sum.splits)

theorem script_ignores_linux_mac_witness:
  "script
     [(BuildJob_init ''install-qt'' ''6.2.0'' ''linux'' ''desktop'' ''gcc_64'' ''gcc_64'')
        \<lparr> mingw_variant := ''not a variant'' \<rparr>]
     [BuildJob_init ''install-qt'' ''6.2.0'' ''mac'' ''desktop'' ''clang_64'' ''macos'']
     (windows_build_jobs ''https://ftp.jaist.ac.jp/pub/qtproject''
        ''https://mirrors.dotsrc.org/qtproject'')
   = script [] []
     (windows_build_jobs ''https://ftp.jaist.ac.jp/pub/qtproject''
        ''https://mirrors.dotsrc.org/qtproject'')
   \<and> (case script
     [(BuildJob_init ''install-qt'' ''6.2.0'' ''linux'' ''desktop'' ''gcc_64'' ''gcc_64'')
        \<lparr> mingw_variant := ''not a variant'' \<rparr>]
     [BuildJob_init ''install-qt'' ''6.2.0'' ''mac'' ''desktop'' ''clang_64'' ''macos'']
     (windows_build_jobs ''https://ftp.jaist.ac.jp/pub/qtproject''
        ''https://mirrors.dotsrc.org/qtproject'') of
        (out, err) \<Rightarrow>
          err = None \<and> length out = 4
          \<and> out ! 2 = ''##vso[task.setVariable variable=linux;isOutput=true]''
          \<and> out ! 3 = ''##vso[task.setVariable variable=mac;isOutput=true]'')"
proof -
  define L where "L =
     [(BuildJob_init ''install-qt'' ''6.2.0'' ''linux'' ''desktop'' ''gcc_64'' ''gcc_64'')
        \<lparr> mingw_variant := ''not a variant'' \<rparr>]"
  define M where "M =
     [BuildJob_init ''install-qt'' ''6.2.0'' ''mac'' ''desktop'' ''clang_64'' ''macos'']"
  define W where "W = windows_build_jobs ''https://ftp.jaist.ac.jp/pub/qtproject''
        ''https://mirrors.dotsrc.org/qtproject''"
  note t = script_ignores_linux_mac [of L M W]
  obtain m where "matrix_dictionary python_versions W = Inr m"
    unfolding W_def using windows_matrix_total by blast
  then obtain out where out: "script L M W = (out, None)"
    by (simp add: script_cases)
  note lines = t [THEN conjunct2, THEN spec, THEN mp, OF out]
  have "case script L M W of
        (out, err) \<Rightarrow>
          err = None \<and> length out = 4
          \<and> out ! 2 = ''##vso[task.setVariable variable=linux;isOutput=true]''
          \<and> out ! 3 = ''##vso[task.setVariable variable=mac;isOutput=true]''"
    unfolding out prod.case using lines by simp
  with t [THEN conjunct1] have "script L M W = script [] [] W
    \<and> (case script L M W of
        (out, err) \<Rightarrow>
          err = None \<and> length out = 4
          \<and> out ! 2 = ''##vso[task.setVariable variable=linux;isOutput=true]''
          \<and> out ! 3 = ''##vso[task.setVariable variable=mac;isOutput=true]'')"
    by (rule conjI)
  then show ?thesis
    unfolding L_def M_def W_def .
qed



text \<open>
  C3, as amended: the program prints four lines and raises nothing: the header
  \<^verbatim>\<open>Setting Variables below\<close>, then one marker line for each of \<^verbatim>\<open>windows\<close>,
  \<^verbatim>\<open>linux\<close> and \<^verbatim>\<open>mac\<close>, in this order, of the form
  \<^verbatim>\<open>##vso[task.setVariable variable=<name>;isOutput=true]<payload>\<close>; the payload of
  \<^verbatim>\<open>windows\<close> is the JSON object of the Windows matrix, the payloads of \<^verbatim>\<open>linux\<close> and
  \<^verbatim>\<open>mac\<close> are the empty string.
\<close>

theorem program_output_lines:
  "\<exists>m body.
     matrix_dictionary python_versions
       (windows_build_jobs (MIRRORS ! (r1 mod 3)) (MIRRORS ! (r2 mod 3))) = Inr m
     \<and> json_dumps m = ''{'' @ body @ ''}''
     \<and> program r1 r2 =
         ([''Setting Variables below'',
           ''##vso[task.setVariable variable=windows;isOutput=true]'' @ json_dumps m,
           ''##vso[task.setVariable variable=linux;isOutput=true]'',
           ''##vso[task.setVariable variable=mac;isOutput=true]''], None)"
proof -
  obtain m where m:
    "matrix_dictionary python_versions
       (windows_build_jobs (MIRRORS ! (r1 mod 3)) (MIRRORS ! (r2 mod 3))) = Inr m"
    using windows_matrix_total by blast
  obtain body where body: "json_dumps m = ''{'' @ body @ ''}''"
    using json_dumps_object by blast
  have "program r1 r2 =
         ([''Setting Variables below'',
           ''##vso[task.setVariable variable=windows;isOutput=true]'' @ json_dumps m,
           ''##vso[task.setVariable variable=linux;isOutput=true]'',
           ''##vso[task.setVariable variable=mac;isOutput=true]''], None)"
    by (simp only: program_script script_cases m sum.case)
  with m body show ?thesis
    by blast
qed

text \<open>
  C3 as stated has the program write exactly three lines; with the header it writes four.
\<close>

theorem program_prints_four_lines:
  "length (fst (program 0 0)) = 4 \<and> length (fst (program 0 0)) \<noteq> 3
   \<and> fst (program 0 0) ! 0 = ''Setting Variables below''
   \<and> snd (program 0 0) = None"
proof -
  obtain m where
    "matrix_dictionary python_versions
       (windows_build_jobs (MIRRORS ! (0 mod 3)) (MIRRORS ! (0 mod 3))) = Inr m"
    using windows_matrix_total by blast
  then show ?thesis
    by (simp add: program_script [of 0 0] script_cases)
qed

end
